theory Spec2Isabelle
  imports Complex_Main "HOL-Library.Monad_Syntax"
begin

section \<open>Numbers and errors\<close>

text \<open>
  The scripts compute with Python numbers (ints and floats mixed, combined by true
  division). They are modelled as exact rationals: every result below is a statement
  about the arithmetic the code writes down, without rounding. The only exception
  the arithmetic can raise is \<open>ZeroDivisionError\<close>, raised by \<open>/\<close> for a zero divisor
  (for ints and floats alike); it is the value \<open>None\<close>.
\<close>

definition py_div :: "rat \<Rightarrow> rat \<Rightarrow> rat option" where
  "py_div a b = (if b = 0 then None else Some (a / b))"

section \<open>bonding\_curve\_simulator.py\<close>

text \<open>\<open>calculate_buy_cost\<close> (bonding\_curve\_simulator.py, lines 42-47).\<close>

definition calculate_buy_cost :: "rat \<Rightarrow> rat \<Rightarrow> rat \<Rightarrow> rat \<Rightarrow> rat option" where
  "calculate_buy_cost virtual_sol virtual_tokens real_tokens buy_amount =
     (let k = virtual_sol * (virtual_tokens + real_tokens);
          remaining = real_tokens - buy_amount
      in do {
        new_sol \<leftarrow> py_div k (virtual_tokens + remaining);
        Some (new_sol - virtual_sol)
      })"

text \<open>
  The body of the \<open>for\<close> loop of \<open>calculate_price_curve\<close> (lines 25-38), as a function
  of \<open>tokens_to_buy\<close>: the three values appended to \<open>tokens_bought\<close>, \<open>prices\<close> and
  \<open>sol_spent\<close>.
\<close>

definition price_curve_point :: "rat \<Rightarrow> rat \<Rightarrow> rat \<Rightarrow> rat \<Rightarrow> (rat \<times> rat \<times> rat) option" where
  "price_curve_point virtual_sol virtual_tokens real_tokens tokens_to_buy =
     (let k = virtual_sol * (virtual_tokens + real_tokens);
          remaining_tokens = real_tokens - tokens_to_buy
      in do {
        new_total_sol \<leftarrow> py_div k (virtual_tokens + remaining_tokens);
        let sol_needed = new_total_sol - virtual_sol;
        current_price \<leftarrow> py_div (virtual_sol + sol_needed) (virtual_tokens + remaining_tokens);
        Some (tokens_to_buy / 1000000, current_price, sol_needed)
      })"

text \<open>
  The loop over \<open>range(num_points)\<close>; the accumulator holds the three lists
  \<open>(tokens_bought, prices, sol_spent)\<close>, each extended at its end.
\<close>

fun price_curve_loop ::
  "rat \<Rightarrow> rat \<Rightarrow> rat \<Rightarrow> rat \<Rightarrow> int list \<Rightarrow> rat list \<times> rat list \<times> rat list
     \<Rightarrow> (rat list \<times> rat list \<times> rat list) option" where
  "price_curve_loop virtual_sol virtual_tokens real_tokens increment [] acc = Some acc"
| "price_curve_loop virtual_sol virtual_tokens real_tokens increment (i # is)
       (tokens_bought, prices, sol_spent) =
     do {
       (t, p, s) \<leftarrow> price_curve_point virtual_sol virtual_tokens real_tokens
                      (increment * of_int (i + 1));
       price_curve_loop virtual_sol virtual_tokens real_tokens increment is
         (tokens_bought @ [t], prices @ [p], sol_spent @ [s])
     }"

text \<open>\<open>calculate_price_curve\<close> (lines 14-40); \<open>range(num_points)\<close> is \<open>[0..num_points - 1]\<close>.\<close>

definition calculate_price_curve ::
  "rat \<Rightarrow> rat \<Rightarrow> rat \<Rightarrow> int \<Rightarrow> (rat list \<times> rat list \<times> rat list) option" where
  "calculate_price_curve virtual_sol virtual_tokens real_tokens num_points =
     (let total_supply = real_tokens
      in do {
        increment \<leftarrow> py_div total_supply (of_int num_points);
        price_curve_loop virtual_sol virtual_tokens real_tokens increment
          [0..num_points - 1] ([], [], [])
      })"

text \<open>
  \<open>simulate_trading_scenario\<close> (lines 136-183). The loop state is the pair of the
  variables \<open>remaining\<close> and \<open>total_sol\<close>; a step also yields what it prints:
  \<open>tokens_bought\<close>, \<open>pct_of_supply\<close> and \<open>avg_price\<close>.
\<close>

record sim_state =
  remaining :: rat
  total_sol :: rat

record buy_row =
  tokens_bought :: rat
  pct_of_supply :: rat
  avg_price :: rat

definition buyer_step ::
  "rat \<Rightarrow> rat \<Rightarrow> rat \<Rightarrow> sim_state \<Rightarrow> rat \<Rightarrow> (buy_row \<times> sim_state) option" where
  "buyer_step vsol vtok supply st sol_amount =
     (let k = (vsol + total_sol st) * (vtok + remaining st);
          new_sol = vsol + total_sol st + sol_amount
      in do {
        new_tokens \<leftarrow> py_div k new_sol;
        let bought = (vtok + remaining st) - new_tokens;
        q \<leftarrow> py_div bought supply;
        let pct = q * 100;
        avg \<leftarrow> (if bought > 0 then py_div sol_amount bought else Some 0);
        Some (\<lparr>tokens_bought = bought, pct_of_supply = pct, avg_price = avg\<rparr>,
              \<lparr>remaining = remaining st - bought, total_sol = total_sol st + sol_amount\<rparr>)
      })"

fun buyers_loop ::
  "rat \<Rightarrow> rat \<Rightarrow> rat \<Rightarrow> sim_state \<Rightarrow> (string \<times> rat) list
     \<Rightarrow> (buy_row list \<times> sim_state) option" where
  "buyers_loop vsol vtok supply st [] = Some ([], st)"
| "buyers_loop vsol vtok supply st ((buyer_name, sol_amount) # buyers) =
     do {
       (row, st') \<leftarrow> buyer_step vsol vtok supply st sol_amount;
       (rows, st'') \<leftarrow> buyers_loop vsol vtok supply st' buyers;
       Some (row # rows, st'')
     }"

text \<open>
  One pass of the outer loop (lines 160-183) for one scenario: the buyers' loop from
  \<open>remaining = supply\<close>, \<open>total_sol = 0\<close>, then the summary line, which divides
  \<open>remaining\<close> by \<open>supply\<close>.
\<close>

definition run_scenario ::
  "rat \<Rightarrow> rat \<Rightarrow> rat \<Rightarrow> (string \<times> rat) list \<Rightarrow> (buy_row list \<times> sim_state \<times> rat) option" where
  "run_scenario vsol vtok supply buyers =
     do {
       (rows, st) \<leftarrow> buyers_loop vsol vtok supply \<lparr>remaining = supply, total_sol = 0\<rparr> buyers;
       q \<leftarrow> py_div (remaining st) supply;
       Some (rows, st, q * 100)
     }"

definition sim_scenarios :: "(string \<times> rat \<times> rat) list" where
  "sim_scenarios =
     [(''Current (30/1B)'', 30, 1000000000),
      (''Optimized (200/600M)'', 200, 600000000)]"

definition sim_buyers :: "(string \<times> rat) list" where
  "sim_buyers =
     [(''Small retail (0.5 SOL)'', 1 / 2),
      (''Medium retail (2 SOL)'', 2),
      (''Large retail (5 SOL)'', 5),
      (''Small whale (20 SOL)'', 20),
      (''Large whale (100 SOL)'', 100)]"

definition sim_supply :: rat where
  "sim_supply = 1000000000"

fun scenarios_loop ::
  "(string \<times> rat \<times> rat) list \<Rightarrow> (string \<times> buy_row list \<times> sim_state \<times> rat) list option" where
  "scenarios_loop [] = Some []"
| "scenarios_loop ((scenario_name, vsol, vtok) # rest) =
     do {
       r \<leftarrow> run_scenario vsol vtok sim_supply sim_buyers;
       rs \<leftarrow> scenarios_loop rest;
       Some ((scenario_name, r) # rs)
     }"

definition simulate_trading_scenario ::
  "(string \<times> buy_row list \<times> sim_state \<times> rat) list option" where
  "simulate_trading_scenario = scenarios_loop sim_scenarios"

text \<open>
  The body of the inner loop of \<open>whale_attack_analysis\<close> (lines 206-210): the tokens a
  budget buys, and their percentage of the supply.
\<close>

definition whale_buy :: "rat \<Rightarrow> rat \<Rightarrow> rat \<Rightarrow> rat \<Rightarrow> (rat \<times> rat) option" where
  "whale_buy vsol vtok supply budget =
     (let k = vsol * (vtok + supply);
          new_sol = vsol + budget
      in do {
        new_tokens \<leftarrow> py_div k new_sol;
        let bought = (vtok + supply) - new_tokens;
        q \<leftarrow> py_div bought supply;
        Some (bought, q * 100)
      })"

section \<open>market\_cap\_analyzer.py\<close>

text \<open>\<open>calculate_virtual_tokens\<close> (market\_cap\_analyzer.py, lines 7-11).\<close>

definition calculate_virtual_tokens :: "rat \<Rightarrow> rat \<Rightarrow> rat \<Rightarrow> rat option" where
  "calculate_virtual_tokens market_cap_sol virtual_sol total_supply =
     do {
       initial_price \<leftarrow> py_div market_cap_sol total_supply;
       q \<leftarrow> py_div virtual_sol initial_price;
       let virtual_tokens = q - total_supply;
       Some (max 0 virtual_tokens)
     }"

text \<open>
  \<open>calculate_buy_cost\<close> of market\_cap\_analyzer.py (lines 13-18), a second definition
  of the function of the same name in the simulator.
\<close>

definition analyzer_calculate_buy_cost :: "rat \<Rightarrow> rat \<Rightarrow> rat \<Rightarrow> rat \<Rightarrow> rat option" where
  "analyzer_calculate_buy_cost virtual_sol virtual_tokens total_supply buy_amount =
     (let k = virtual_sol * (virtual_tokens + total_supply);
          remaining = total_supply - buy_amount
      in do {
        new_sol \<leftarrow> py_div k (virtual_tokens + remaining);
        Some (new_sol - virtual_sol)
      })"

section \<open>Basic facts\<close>

lemma py_div_Some: "b \<noteq> 0 \<Longrightarrow> py_div a b = Some (a / b)"
  by (simp add: py_div_def)

lemma py_div_None_iff: "py_div a b = None \<longleftrightarrow> b = 0"
  by (simp add: py_div_def)

lemma calculate_buy_cost_value:
  "virtual_tokens + (real_tokens - buy_amount) \<noteq> 0 \<Longrightarrow>
   calculate_buy_cost virtual_sol virtual_tokens real_tokens buy_amount =
     Some (virtual_sol * (virtual_tokens + real_tokens) / (virtual_tokens + (real_tokens - buy_amount))
           - virtual_sol)"
  by (simp add: calculate_buy_cost_def py_div_def)

lemma analyzer_calculate_buy_cost_eq:
  "analyzer_calculate_buy_cost = calculate_buy_cost"
  by (simp add: fun_eq_iff analyzer_calculate_buy_cost_def calculate_buy_cost_def)

lemma calculate_virtual_tokens_value:
  assumes "market_cap_sol \<noteq> 0" and "total_supply \<noteq> 0"
  shows "calculate_virtual_tokens market_cap_sol virtual_sol total_supply =
           Some (max 0 (virtual_sol / (market_cap_sol / total_supply) - total_supply))"
  using assms by (simp add: calculate_virtual_tokens_def py_div_def)

lemma price_curve_point_value:
  assumes "virtual_tokens + (real_tokens - tokens_to_buy) \<noteq> 0"
  shows "price_curve_point virtual_sol virtual_tokens real_tokens tokens_to_buy =
           Some (tokens_to_buy / 1000000,
                 (virtual_sol + (virtual_sol * (virtual_tokens + real_tokens)
                      / (virtual_tokens + (real_tokens - tokens_to_buy)) - virtual_sol))
                   / (virtual_tokens + (real_tokens - tokens_to_buy)),
                 virtual_sol * (virtual_tokens + real_tokens)
                   / (virtual_tokens + (real_tokens - tokens_to_buy)) - virtual_sol)"
  using assms by (simp add: price_curve_point_def py_div_def Let_def)

lemma price_curve_loop_value:
  assumes "\<forall>i \<in> set is. virtual_tokens + (real_tokens - increment * of_int (i + 1)) \<noteq> 0"
  shows "price_curve_loop virtual_sol virtual_tokens real_tokens increment is (tb, ps, ss) =
           Some (tb @ map (\<lambda>i. increment * of_int (i + 1) / 1000000) is,
                 ps @ map (\<lambda>i. (virtual_sol + (virtual_sol * (virtual_tokens + real_tokens)
                      / (virtual_tokens + (real_tokens - increment * of_int (i + 1))) - virtual_sol))
                   / (virtual_tokens + (real_tokens - increment * of_int (i + 1)))) is,
                 ss @ map (\<lambda>i. virtual_sol * (virtual_tokens + real_tokens)
                   / (virtual_tokens + (real_tokens - increment * of_int (i + 1))) - virtual_sol) is)"
  using assms
proof (induction "is" arbitrary: tb ps ss)
  case Nil
  then show ?case by simp
next
  case (Cons i "is")
  from Cons.prems have nz: "virtual_tokens + (real_tokens - increment * of_int (i + 1)) \<noteq> 0"
    and rest: "\<forall>j \<in> set is. virtual_tokens + (real_tokens - increment * of_int (j + 1)) \<noteq> 0"
    by simp_all
  show ?case
    unfolding price_curve_loop.simps price_curve_point_value [OF nz]
    by (simp add: Cons.IH [OF rest])
qed

lemma sample_within_supply:
  assumes "0 < real_tokens" and "0 < num_points" and "0 \<le> i" and "i \<le> num_points - 1"
  shows "real_tokens / of_int num_points * of_int (i + 1) \<le> (real_tokens :: rat)"
proof -
  from assms have "(of_int (i + 1) :: rat) \<le> of_int num_points" by simp
  then have "real_tokens * of_int (i + 1) \<le> real_tokens * of_int num_points"
    using assms(1) by (simp only: mult_le_cancel_left_pos)
  moreover have "(0::rat) < of_int num_points" using assms(2) by simp
  ultimately show ?thesis by (simp add: pos_divide_le_eq)
qed

lemma buyer_step_value:
  assumes "vsol + total_sol st + sol_amount \<noteq> 0" and "supply \<noteq> 0"
  shows "\<exists>row. buyer_step vsol vtok supply st sol_amount =
           Some (row,
                 \<lparr>remaining = (vsol + total_sol st) * (vtok + remaining st)
                                / (vsol + total_sol st + sol_amount) - vtok,
                  total_sol = total_sol st + sol_amount\<rparr>) \<and>
           tokens_bought row = (vtok + remaining st)
              - (vsol + total_sol st) * (vtok + remaining st) / (vsol + total_sol st + sol_amount)"
  using assms by (simp add: buyer_step_def py_div_def Let_def)

lemma buyer_step_product:
  assumes "0 < vsol" and "0 < supply" and "0 \<le> total_sol st" and "0 < sol_amount"
  shows "\<exists>row st'. buyer_step vsol vtok supply st sol_amount = Some (row, st') \<and>
           remaining st' = remaining st - tokens_bought row \<and>
           total_sol st' = total_sol st + sol_amount \<and>
           (vsol + total_sol st') * (vtok + remaining st')
             = (vsol + total_sol st) * (vtok + remaining st)"
proof -
  from assms have ns: "vsol + total_sol st + sol_amount \<noteq> 0" and s: "supply \<noteq> 0" by simp_all
  from buyer_step_value [OF ns s, of vtok] obtain row where
    step: "buyer_step vsol vtok supply st sol_amount =
           Some (row,
                 \<lparr>remaining = (vsol + total_sol st) * (vtok + remaining st)
                                / (vsol + total_sol st + sol_amount) - vtok,
                  total_sol = total_sol st + sol_amount\<rparr>)"
    and row: "tokens_bought row = (vtok + remaining st)
              - (vsol + total_sol st) * (vtok + remaining st) / (vsol + total_sol st + sol_amount)"
    by blast
  show ?thesis unfolding step using ns row by (simp add: add.assoc)
qed

lemma buyers_loop_product:
  assumes "0 < vsol" and "0 < supply" and "0 \<le> total_sol st"
    and "\<forall>b \<in> set buyers. 0 < snd b"
  shows "\<exists>rows st'. buyers_loop vsol vtok supply st buyers = Some (rows, st') \<and>
           0 \<le> total_sol st' \<and>
           (vsol + total_sol st') * (vtok + remaining st')
             = (vsol + total_sol st) * (vtok + remaining st)"
  using assms(3,4)
proof (induction buyers arbitrary: st)
  case Nil
  then show ?case by simp
next
  case (Cons b buyers)
  obtain buyer_name sol_amount where b: "b = (buyer_name, sol_amount)" by (cases b)
  with Cons.prems have amt: "0 < sol_amount" and rest: "\<forall>b \<in> set buyers. 0 < snd b" by simp_all
  from buyer_step_product [OF assms(1,2) Cons.prems(1) amt, of vtok] obtain row st1 where
    step: "buyer_step vsol vtok supply st sol_amount = Some (row, st1)"
    and tot: "total_sol st1 = total_sol st + sol_amount"
    and prod: "(vsol + total_sol st1) * (vtok + remaining st1)
                 = (vsol + total_sol st) * (vtok + remaining st)"
    by blast
  from tot Cons.prems(1) amt have "0 \<le> total_sol st1" by simp
  from Cons.IH [OF this rest] obtain rows st2 where
    loop: "buyers_loop vsol vtok supply st1 buyers = Some (rows, st2)"
    and tot2: "0 \<le> total_sol st2"
    and prod2: "(vsol + total_sol st2) * (vtok + remaining st2)
                  = (vsol + total_sol st1) * (vtok + remaining st1)"
    by blast
  show ?case unfolding b using step loop tot2 prod prod2 by simp
qed

lemma run_scenario_returns:
  assumes "0 < vsol" and "0 < supply" and "\<forall>b \<in> set buyers. 0 < snd b"
  shows "\<exists>rows st pct. run_scenario vsol vtok supply buyers = Some (rows, st, pct) \<and>
           (vsol + total_sol st) * (vtok + remaining st) = vsol * (vtok + supply)"
proof -
  from buyers_loop_product [OF assms(1,2) _ assms(3),
      of "\<lparr>remaining = supply, total_sol = 0\<rparr>" vtok]
  obtain rows st where
    loop: "buyers_loop vsol vtok supply \<lparr>remaining = supply, total_sol = 0\<rparr> buyers
             = Some (rows, st)"
    and prod: "(vsol + total_sol st) * (vtok + remaining st) = vsol * (vtok + supply)"
    by auto
  from assms(2) have "supply \<noteq> 0" by simp
  then show ?thesis using loop prod by (simp add: run_scenario_def py_div_def)
qed

section \<open>The cost of a purchase\<close>

text \<open>
  Claim C1. For a curve with \<open>virtual_sol > 0\<close>, \<open>virtual_tokens > 0\<close> and
  \<open>supply > 0\<close>, and a purchase \<open>0 \<le> tokensToBuy < supply\<close>, \<open>calculate_buy_cost\<close>
  returns \<open>k / (virtual_tokens + (supply - tokensToBuy)) - virtual_sol\<close> with
  \<open>k = virtual_sol * (virtual_tokens + supply)\<close>; so does the function of the same name
  in the analyzer.
\<close>

theorem buy_cost_formula:
  assumes "0 < virtual_sol" and "0 < virtual_tokens" and "0 < supply"
    and "0 \<le> tokensToBuy" and "tokensToBuy < supply"
  shows "let k = virtual_sol * (virtual_tokens + supply) in
         calculate_buy_cost virtual_sol virtual_tokens supply tokensToBuy
           = Some (k / (virtual_tokens + (supply - tokensToBuy)) - virtual_sol) \<and>
         analyzer_calculate_buy_cost virtual_sol virtual_tokens supply tokensToBuy
           = Some (k / (virtual_tokens + (supply - tokensToBuy)) - virtual_sol)"
proof -
  from assms have "virtual_tokens + (supply - tokensToBuy) \<noteq> 0" by simp
  then show ?thesis
    by (simp add: analyzer_calculate_buy_cost_eq calculate_buy_cost_value Let_def)
qed

theorem buy_cost_formula_witness:
  "(0::rat) < 200 \<and> (0::rat) < 600000000 \<and> (0::rat) < 1000000000 \<and>
   (0::rat) \<le> 250000000 \<and> (250000000::rat) < 1000000000 \<and>
   calculate_buy_cost 200 600000000 1000000000 250000000 = Some (1000 / 27) \<and>
   analyzer_calculate_buy_cost 200 600000000 1000000000 250000000 = Some (1000 / 27)"
  using buy_cost_formula [of 200 600000000 1000000000 250000000] by (simp add: Let_def)





text \<open>
  Claim C4, as stated: \<open>calculate_buy_cost\<close> raises exactly when
  \<open>tokensToBuy \<ge> supply\<close>, and divides by zero at \<open>tokensToBuy = supply\<close>. It does
  not: on the curve \<open>30 / 10^9 / 10^9\<close>, buying the whole supply returns \<open>30\<close>.
\<close>

theorem buy_cost_at_supply_counterexample:
  "(1000000000::rat) \<ge> 1000000000 \<and>
   calculate_buy_cost 30 1000000000 1000000000 1000000000 = Some 30 \<and>
   analyzer_calculate_buy_cost 30 1000000000 1000000000 1000000000 = Some 30"
  by (simp add: calculate_buy_cost_def analyzer_calculate_buy_cost_def py_div_def)

text \<open>
  Claim C4, amended: the divisor is \<open>virtual_tokens + (supply - tokensToBuy)\<close>, so
  \<open>calculate_buy_cost\<close> raises exactly when \<open>tokensToBuy = virtual_tokens + supply\<close>,
  whatever the sign of the arguments; buying exactly the supply divides by zero exactly
  when \<open>virtual_tokens = 0\<close>. Both scripts agree.
\<close>

theorem buy_cost_fails_iff:
  "(calculate_buy_cost virtual_sol virtual_tokens supply tokensToBuy = None
      \<longleftrightarrow> tokensToBuy = virtual_tokens + supply) \<and>
   (analyzer_calculate_buy_cost virtual_sol virtual_tokens supply tokensToBuy = None
      \<longleftrightarrow> tokensToBuy = virtual_tokens + supply) \<and>
   (calculate_buy_cost virtual_sol virtual_tokens supply supply = None \<longleftrightarrow> virtual_tokens = 0) \<and>
   (analyzer_calculate_buy_cost virtual_sol virtual_tokens supply supply = None
      \<longleftrightarrow> virtual_tokens = 0)"
  by (auto simp add: analyzer_calculate_buy_cost_eq calculate_buy_cost_def py_div_def Let_def
        split: if_splits)

theorem buy_cost_fails_iff_witness:
  "calculate_buy_cost 30 1000000000 1000000000 2000000000 = None \<and>
   calculate_buy_cost 200 0 1000000000 1000000000 = None"
  using buy_cost_fails_iff [of 30 1000000000 1000000000 2000000000]
    buy_cost_fails_iff [of 200 0 1000000000 1000000000] by simp

text \<open>
  Claim C6, as stated: on the curve \<open>30 / 10^9 / 10^9\<close>, buying \<open>10^8\<close> tokens costs
  about \<open>1.666...\<close> The code returns \<open>30 / 19\<close>, which is more than \<open>0.08\<close> below \<open>5 / 3\<close>.
\<close>

theorem buy_cost_example_counterexample:
  "calculate_buy_cost 30 1000000000 1000000000 100000000 = Some (30 / 19) \<and>
   (8 / 100 :: rat) < 5 / 3 - 30 / 19"
  by (simp add: calculate_buy_cost_def py_div_def)

text \<open>
  Claim C6, amended: on that input \<open>calculate_buy_cost\<close> returns
  \<open>k / (virtual_tokens + 9 * 10^8) - 30\<close> with \<open>k = 30 * (10^9 + 10^9)\<close>, which is
  \<open>30 / 19\<close>, between \<open>1.578\<close> and \<open>1.579\<close>.
\<close>

theorem buy_cost_example:
  "calculate_buy_cost 30 1000000000 1000000000 100000000
     = Some (30 * (1000000000 + 1000000000) / (1000000000 + 900000000) - 30) \<and>
   the (calculate_buy_cost 30 1000000000 1000000000 100000000) = 30 / 19 \<and>
   1578 / 1000 < the (calculate_buy_cost 30 1000000000 1000000000 100000000) \<and>
   the (calculate_buy_cost 30 1000000000 1000000000 100000000) < 1579 / 1000"
  by (simp add: calculate_buy_cost_def py_div_def)

section \<open>Solving for the virtual tokens\<close>

text \<open>
  Claim C5. For \<open>targetMarketCapSol > 0\<close>, \<open>virtual_sol > 0\<close> and \<open>supply > 0\<close>,
  \<open>calculate_virtual_tokens\<close> returns \<open>virtual_sol / (targetMarketCapSol / supply) - supply\<close>
  clamped at \<open>0\<close> from below, that is \<open>max 0 (virtual_sol * supply / targetMarketCapSol - supply)\<close>;
  the result is never negative.
\<close>

theorem virtual_tokens_formula:
  assumes "0 < targetMarketCapSol" and "0 < virtual_sol" and "0 < supply"
  shows "\<exists>vt. calculate_virtual_tokens targetMarketCapSol virtual_sol supply = Some vt \<and>
              vt = max 0 (virtual_sol / (targetMarketCapSol / supply) - supply) \<and>
              vt = max 0 (virtual_sol * supply / targetMarketCapSol - supply) \<and>
              0 \<le> vt"
  using assms by (simp add: calculate_virtual_tokens_value)

theorem virtual_tokens_formula_witness:
  "(0::rat) < 125 \<and> (0::rat) < 200 \<and> (0::rat) < 1000000000 \<and>
   (\<exists>vt. calculate_virtual_tokens 125 200 1000000000 = Some vt \<and>
         vt = max 0 (200 / (125 / 1000000000) - 1000000000) \<and>
         vt = max 0 (200 * 1000000000 / 125 - 1000000000) \<and> 0 \<le> vt)"
  using virtual_tokens_formula [of 125 200 1000000000] by simp

text \<open>
  Claim C3, as stated: with \<open>virtual_tokens\<close> from \<open>calculate_virtual_tokens\<close>, the spot
  price at zero tokens sold is the target price \<open>targetMarketCapSol / supply\<close>. For a
  target of \<open>500\<close> SOL with \<open>virtual_sol = 200\<close> (the analyzer's `Premium Launch' preset:
  100000 USD at 200 USD per SOL) the clamp gives \<open>virtual_tokens = 0\<close> and the price
  of the first point is \<open>200 / 10^9\<close>, not \<open>500 / 10^9\<close>.
\<close>

theorem roundtrip_counterexample:
  "calculate_virtual_tokens 500 200 1000000000 = Some 0 \<and>
   price_curve_point 200 0 1000000000 0 = Some (0, 200 / (0 + 1000000000), 0) \<and>
   (200 / (0 + 1000000000) :: rat) \<noteq> 500 / 1000000000"
  by (simp add: calculate_virtual_tokens_def price_curve_point_def py_div_def)

text \<open>
  Claim C3, amended: for positive arguments both functions return, and the spot price
  at zero tokens sold is \<open>virtual_sol / (virtual_tokens + supply)\<close>; it equals the
  target price \<open>targetMarketCapSol / supply\<close> when \<open>targetMarketCapSol \<le> virtual_sol\<close>.
  When \<open>targetMarketCapSol > virtual_sol\<close> the clamp returns \<open>virtual_tokens = 0\<close> and
  the price is \<open>virtual_sol / supply\<close>.
\<close>

theorem roundtrip_unless_clamped:
  assumes "0 < targetMarketCapSol" and "0 < virtual_sol" and "0 < supply"
  shows "\<exists>vt price. calculate_virtual_tokens targetMarketCapSol virtual_sol supply = Some vt \<and>
           price_curve_point virtual_sol vt supply 0 = Some (0, price, 0) \<and>
           price = virtual_sol / (vt + supply) \<and>
           (targetMarketCapSol \<le> virtual_sol \<longrightarrow> price = targetMarketCapSol / supply) \<and>
           (virtual_sol < targetMarketCapSol \<longrightarrow> vt = 0 \<and> price = virtual_sol / supply)"
proof -
  let ?q = "virtual_sol / (targetMarketCapSol / supply) - supply"
  let ?vt = "max 0 ?q"
  have vt: "calculate_virtual_tokens targetMarketCapSol virtual_sol supply = Some ?vt"
    using assms by (simp add: calculate_virtual_tokens_value)
  have pos: "0 < ?vt + supply" using assms by (simp add: max_def)
  then have nz: "?vt + (supply - 0) \<noteq> 0" by simp
  have pt: "price_curve_point virtual_sol ?vt supply 0 = Some (0, virtual_sol / (?vt + supply), 0)"
    using price_curve_point_value [OF nz, of virtual_sol] pos by simp
  have q: "?q = supply * (virtual_sol - targetMarketCapSol) / targetMarketCapSol"
    using assms by (simp add: field_simps)
  have le: "targetMarketCapSol \<le> virtual_sol \<Longrightarrow> virtual_sol / (?vt + supply) = targetMarketCapSol / supply"
  proof -
    assume "targetMarketCapSol \<le> virtual_sol"
    then have "0 \<le> ?q" unfolding q using assms by simp
    then have "?vt + supply = virtual_sol / (targetMarketCapSol / supply)" by simp
    then show ?thesis using assms by simp
  qed
  have gt: "virtual_sol < targetMarketCapSol \<Longrightarrow> ?vt = 0"
  proof -
    assume "virtual_sol < targetMarketCapSol"
    then have "?q < 0" unfolding q using assms
      by (simp add: divide_neg_pos mult_pos_neg)
    then show ?thesis by simp
  qed
  show ?thesis using vt pt le gt by auto
qed

theorem roundtrip_unless_clamped_witness:
  "(0::rat) < 125 \<and> (0::rat) < 200 \<and> (0::rat) < 500 \<and> (0::rat) < 1000000000 \<and>
   (125::rat) \<le> 200 \<and> (200::rat) < 500 \<and>
   calculate_virtual_tokens 125 200 1000000000 = Some 600000000 \<and>
   price_curve_point 200 600000000 1000000000 0 = Some (0, 125 / 1000000000, 0) \<and>
   calculate_virtual_tokens 500 200 1000000000 = Some 0 \<and>
   price_curve_point 200 0 1000000000 0 = Some (0, 200 / 1000000000, 0)"
  using roundtrip_unless_clamped [of 125 200 1000000000]
    roundtrip_unless_clamped [of 500 200 1000000000] by simp

section \<open>Buying with a budget\<close>

text \<open>
  Claim C10. The tokens that \<open>whale_attack_analysis\<close> computes for a budget invert
  \<open>calculate_buy_cost\<close>: for positive \<open>virtual_sol\<close>, \<open>virtual_tokens\<close>, \<open>supply\<close> and
  \<open>budget\<close>, the loop body returns
  \<open>tokens_bought = (virtual_tokens + supply) - k / (virtual_sol + budget)\<close> with
  \<open>k = virtual_sol * (virtual_tokens + supply)\<close>, and buying \<open>tokens_bought\<close> costs
  exactly \<open>budget\<close> (over the rationals).
\<close>

theorem whale_buy_inverts_buy_cost:
  assumes "0 < virtual_sol" and "0 < virtual_tokens" and "0 < supply" and "0 < budget"
  shows "let k = virtual_sol * (virtual_tokens + supply);
             tokens_bought = (virtual_tokens + supply) - k / (virtual_sol + budget)
         in (\<exists>pct. whale_buy virtual_sol virtual_tokens supply budget = Some (tokens_bought, pct)) \<and>
            calculate_buy_cost virtual_sol virtual_tokens supply tokens_bought = Some budget"
proof -
  let ?k = "virtual_sol * (virtual_tokens + supply)"
  let ?tb = "(virtual_tokens + supply) - ?k / (virtual_sol + budget)"
  from assms have ns: "virtual_sol + budget \<noteq> 0" and k: "?k \<noteq> 0" by simp_all
  have w: "whale_buy virtual_sol virtual_tokens supply budget = Some (?tb, ?tb / supply * 100)"
    using assms ns by (simp add: whale_buy_def py_div_def Let_def)
  have d: "virtual_tokens + (supply - ?tb) = ?k / (virtual_sol + budget)" by simp
  then have dn: "virtual_tokens + (supply - ?tb) \<noteq> 0" using ns k by simp
  have "calculate_buy_cost virtual_sol virtual_tokens supply ?tb
          = Some (?k / (?k / (virtual_sol + budget)) - virtual_sol)"
    using calculate_buy_cost_value [OF dn, of virtual_sol] d by simp
  also have "?k / (?k / (virtual_sol + budget)) = virtual_sol + budget"
    using k ns by simp
  finally have "calculate_buy_cost virtual_sol virtual_tokens supply ?tb = Some budget" by simp
  then show ?thesis using w by (simp add: Let_def)
qed

theorem whale_buy_inverts_buy_cost_witness:
  "(0::rat) < 30 \<and> (0::rat) < 1000000000 \<and> (0::rat) < 100 \<and>
   (\<exists>pct. whale_buy 30 1000000000 1000000000 100 = Some (20000000000 / 13, pct)) \<and>
   calculate_buy_cost 30 1000000000 1000000000 (20000000000 / 13) = Some 100"
  using whale_buy_inverts_buy_cost [of 30 1000000000 1000000000 100] by (simp add: Let_def)

section \<open>The price curve\<close>

text \<open>
  Claim C8. For a curve with all three values positive and \<open>0 \<le> tokensSold < supply\<close>,
  the spot price that \<open>calculate_price_curve\<close> computes is
  \<open>(virtual_sol + solSpent) / (virtual_tokens + remaining)\<close> with
  \<open>remaining = supply - tokensSold\<close> and \<open>solSpent\<close> the result of \<open>calculate_buy_cost\<close>
  at \<open>tokensSold\<close>. The first part is about the loop body at any such \<open>tokensSold\<close>; the
  second is about the function itself, which for \<open>num_points > 0\<close> returns
  \<open>num_points\<close> prices, the \<open>i\<close>-th at
  \<open>tokensSold = supply / num_points * (i + 1)\<close> (the last one at the whole supply).
\<close>

theorem price_curve_spot_price:
  assumes "0 < virtual_sol" and "0 < virtual_tokens" and "0 < supply"
  shows "(0 \<le> tokensSold \<and> tokensSold < supply \<longrightarrow>
           (\<exists>solSpent price.
              calculate_buy_cost virtual_sol virtual_tokens supply tokensSold = Some solSpent \<and>
              price_curve_point virtual_sol virtual_tokens supply tokensSold
                = Some (tokensSold / 1000000, price, solSpent) \<and>
              price = (virtual_sol + solSpent) / (virtual_tokens + (supply - tokensSold)))) \<and>
         (0 < num_points \<longrightarrow>
           (\<exists>tokens prices sol.
              calculate_price_curve virtual_sol virtual_tokens supply num_points
                = Some (tokens, prices, sol) \<and>
              length prices = nat num_points \<and>
              (\<forall>i < nat num_points.
                 \<exists>solSpent.
                   calculate_buy_cost virtual_sol virtual_tokens supply
                     (supply / of_int num_points * of_int (int i + 1)) = Some solSpent \<and>
                   prices ! i = (virtual_sol + solSpent)
                     / (virtual_tokens + (supply - supply / of_int num_points * of_int (int i + 1))))))"
proof (intro conjI impI)
  assume "0 \<le> tokensSold \<and> tokensSold < supply"
  with assms have "virtual_tokens + (supply - tokensSold) \<noteq> 0" by simp
  then show "\<exists>solSpent price.
              calculate_buy_cost virtual_sol virtual_tokens supply tokensSold = Some solSpent \<and>
              price_curve_point virtual_sol virtual_tokens supply tokensSold
                = Some (tokensSold / 1000000, price, solSpent) \<and>
              price = (virtual_sol + solSpent) / (virtual_tokens + (supply - tokensSold))"
    by (simp add: calculate_buy_cost_value price_curve_point_value)
next
  assume n: "0 < num_points"
  let ?inc = "supply / of_int num_points"
  have nz: "\<forall>i \<in> set [0..num_points - 1]. virtual_tokens + (supply - ?inc * of_int (i + 1)) \<noteq> 0"
  proof
    fix i assume "i \<in> set [0..num_points - 1]"
    then have "0 \<le> i" "i \<le> num_points - 1" by simp_all
    then have "?inc * of_int (i + 1) \<le> supply"
      using sample_within_supply [OF assms(3) n] by simp
    with assms(2) show "virtual_tokens + (supply - ?inc * of_int (i + 1)) \<noteq> 0" by simp
  qed
  have inc: "py_div supply (of_int num_points) = Some ?inc"
    using n by (simp add: py_div_def)
  have curve: "calculate_price_curve virtual_sol virtual_tokens supply num_points =
      Some (map (\<lambda>i. ?inc * of_int (i + 1) / 1000000) [0..num_points - 1],
            map (\<lambda>i. (virtual_sol + (virtual_sol * (virtual_tokens + supply)
                      / (virtual_tokens + (supply - ?inc * of_int (i + 1))) - virtual_sol))
                   / (virtual_tokens + (supply - ?inc * of_int (i + 1)))) [0..num_points - 1],
            map (\<lambda>i. virtual_sol * (virtual_tokens + supply)
                   / (virtual_tokens + (supply - ?inc * of_int (i + 1))) - virtual_sol) [0..num_points - 1])"
    unfolding calculate_price_curve_def Let_def inc
    using price_curve_loop_value [OF nz, of virtual_sol "[]" "[]" "[]"] by simp
  have len: "length [0..num_points - 1] = nat num_points" by simp
  have pt: "\<And>i. i < nat num_points \<Longrightarrow>
     virtual_tokens + (supply - ?inc * of_int (int i + 1)) \<noteq> 0 \<and> [0..num_points - 1] ! i = int i"
  proof -
    fix i assume i: "i < nat num_points"
    then have nth: "[0..num_points - 1] ! i = int i" by (simp add: nth_upto)
    from i have "int i \<in> set [0..num_points - 1]" by auto
    with nz nth show "virtual_tokens + (supply - ?inc * of_int (int i + 1)) \<noteq> 0 \<and> [0..num_points - 1] ! i = int i"
      by blast
  qed
  show "\<exists>tokens prices sol.
              calculate_price_curve virtual_sol virtual_tokens supply num_points
                = Some (tokens, prices, sol) \<and>
              length prices = nat num_points \<and>
              (\<forall>i < nat num_points.
                 \<exists>solSpent.
                   calculate_buy_cost virtual_sol virtual_tokens supply
                     (supply / of_int num_points * of_int (int i + 1)) = Some solSpent \<and>
                   prices ! i = (virtual_sol + solSpent)
                     / (virtual_tokens + (supply - supply / of_int num_points * of_int (int i + 1))))"
    unfolding curve using len pt
    by (simp add: calculate_buy_cost_value)
qed

theorem price_curve_spot_price_witness:
  "(0::rat) < 30 \<and> (0::rat) < 1000000000 \<and> (0::rat) \<le> 250000000 \<and>
   (250000000::rat) < 1000000000 \<and> (0::int) < 4 \<and>
   (\<exists>solSpent price.
      calculate_buy_cost 30 1000000000 1000000000 250000000 = Some solSpent \<and>
      price_curve_point 30 1000000000 1000000000 250000000
        = Some (250000000 / 1000000, price, solSpent) \<and>
      price = (30 + solSpent) / (1000000000 + (1000000000 - 250000000))) \<and>
   (\<exists>tokens prices sol solSpent.
      calculate_price_curve 30 1000000000 1000000000 4 = Some (tokens, prices, sol) \<and>
      length prices = 4 \<and>
      calculate_buy_cost 30 1000000000 1000000000 750000000 = Some solSpent \<and>
      prices ! 2 = (30 + solSpent) / (1000000000 + (1000000000 - 750000000)))"
proof -
  from price_curve_spot_price [of 30 1000000000 1000000000 250000000 4]
  have a: "\<exists>solSpent price.
      calculate_buy_cost 30 1000000000 1000000000 250000000 = Some solSpent \<and>
      price_curve_point 30 1000000000 1000000000 250000000
        = Some (250000000 / 1000000, price, solSpent) \<and>
      price = (30 + solSpent) / (1000000000 + (1000000000 - 250000000))"
    and "\<exists>tokens prices sol.
      calculate_price_curve 30 1000000000 1000000000 4 = Some (tokens, prices, sol) \<and>
      length prices = nat 4 \<and>
      (\<forall>i < nat 4.
         \<exists>solSpent.
           calculate_buy_cost 30 1000000000 1000000000
             (1000000000 / of_int 4 * of_int (int i + 1)) = Some solSpent \<and>
           prices ! i = (30 + solSpent)
             / (1000000000 + (1000000000 - 1000000000 / of_int 4 * of_int (int i + 1))))"
    by simp_all
  then obtain tokens prices sol where
    curve: "calculate_price_curve 30 1000000000 1000000000 4 = Some (tokens, prices, sol)"
    and len: "length prices = nat 4"
    and pts: "\<forall>i < nat 4.
         \<exists>solSpent.
           calculate_buy_cost 30 1000000000 1000000000
             (1000000000 / of_int 4 * of_int (int i + 1)) = Some solSpent \<and>
           prices ! i = (30 + solSpent)
             / (1000000000 + (1000000000 - 1000000000 / of_int 4 * of_int (int i + 1)))"
    by blast
  from pts [rule_format, of 2]
  have "\<exists>solSpent. calculate_buy_cost 30 1000000000 1000000000 750000000 = Some solSpent \<and>
      prices ! 2 = (30 + solSpent) / (1000000000 + (1000000000 - 750000000))"
    by simp
  with curve len have
    "\<exists>tokens prices sol solSpent.
      calculate_price_curve 30 1000000000 1000000000 4 = Some (tokens, prices, sol) \<and>
      length prices = 4 \<and>
      calculate_buy_cost 30 1000000000 1000000000 750000000 = Some solSpent \<and>
      prices ! 2 = (30 + solSpent) / (1000000000 + (1000000000 - 750000000))"
    by auto
  with a show ?thesis by simp
qed


section \<open>Sequential buyers\<close>




end
